theory Spec2Isabelle
  imports Complex_Main
begin

section \<open>The quantized 2-D convolution layer (tensorlayer/layers/convolution/quan_conv.py)\<close>

text \<open>
  The constructor \<^verbatim>\<open>QuantizedConv2d.__init__\<close> builds a piece of a dataflow graph: every call
  it makes (the two quantizers, the variable service, the convolution, the bias addition,
  the activation) returns a new symbolic tensor. The embedding therefore has a datatype of
  graph tensors, one constructor per operation, and runs the constructor as a function from
  its arguments to the outcome (the exception raised, if any), the state of \<^verbatim>\<open>self\<close> when
  it returns or raises, and the trace of the calls it made to its collaborators, in order.
\<close>

subsection \<open>Data\<close>

text \<open>
  Python objects the constructor only passes along (initializers, keyword dictionaries) are
  identified by a name. An activation function is identified by its \<^verbatim>\<open>__name__\<close>.
\<close>

type_synonym initializer = string
type_synonym kwargs = "(string \<times> string) list"

text \<open>
  The \<^verbatim>\<open>shape\<close> argument of the variable service: line 129 passes the 4-tuple \<^verbatim>\<open>shape\<close>,
  line 141 passes \<^verbatim>\<open>(shape[-1])\<close>, which is the bare integer (parentheses without a comma
  make no tuple).
\<close>

datatype shape_arg = Dims "int list" | Dim int

text \<open>
  A static shape as \<^verbatim>\<open>get_shape()\<close> returns it: \<open>None\<close> is a shape of unknown rank, a
  dimension \<open>None\<close> is an unknown dimension (\<^verbatim>\<open>?\<close>).
\<close>

type_synonym static_shape = "int option list option"

datatype tensor =
    Upstream string
  | Variable string shape_arg initializer tensor kwargs
  | QuantizeActiveOverflow tensor int
  | QuantizeWeightOverflow tensor int
  | Conv2D tensor tensor "int list" string bool "string option"
  | BiasAdd tensor tensor
  | Activation string tensor

text \<open>
  \<open>Upstream n\<close> is a tensor made before this layer. \<open>Variable full_name shape init t kw\<close> is
  the variable the service made under that name, with the dtype of the tensor \<open>t\<close>
  (the source passes \<^verbatim>\<open>dtype=self.inputs.dtype\<close>).
\<close>

fun is_Variable :: "tensor \<Rightarrow> bool" where
  "is_Variable (Variable n s i t k) = True"
| "is_Variable t = False"

fun is_quantized :: "tensor \<Rightarrow> bool" where
  "is_quantized (QuantizeActiveOverflow t b) = True"
| "is_quantized (QuantizeWeightOverflow t b) = True"
| "is_quantized t = False"

datatype error =
    Exception string
  | ValueError string
  | TypeError
  | IndexError

datatype event =
    Log_info string int "int list" "int list" string string
  | Log_warning string
  | Call_quantize_active_overflow tensor int
  | Call_get_tf_variable string shape_arg initializer tensor kwargs
  | Call_quantize_weight_overflow tensor int
  | Call_conv2d tensor tensor "int list" string bool "string option"
  | Call_bias_add tensor tensor
  | Call_apply_activation tensor
  | Call_add_layers tensor
  | Call_add_params "tensor list"

record PrevLayer =
  prev_outputs :: tensor
  prev_outputs_shape :: static_shape
  prev_all_layers :: "tensor list"
  prev_all_params :: "tensor list"

record Layer =
  layer_name :: string
  layer_act :: "string option"
  layer_W_init_args :: kwargs
  layer_b_init_args :: kwargs
  inputs :: tensor
  outputs :: "tensor option"
  local_weights :: "tensor list"
  all_layers :: "tensor list"
  all_params :: "tensor list"

text \<open>
  The arguments of the constructor. \<^verbatim>\<open>strides\<close> and \<^verbatim>\<open>filter_size\<close> are tuples of int of
  any length; \<^verbatim>\<open>b_init\<close> is an initializer or \<^verbatim>\<open>None\<close> (an initializer object is truthy, so
  the test \<^verbatim>\<open>if b_init:\<close> of line 139 is the test against \<^verbatim>\<open>None\<close>).
\<close>

record Args =
  prev_layer :: PrevLayer
  n_filter :: int
  filter_size :: "int list"
  strides :: "int list"
  padding :: string
  act :: "string option"
  bitW :: int
  bitA :: int
  use_gemm :: bool
  use_cudnn_on_gpu :: bool
  data_format :: "string option"
  W_init :: initializer
  b_init :: "initializer option"
  W_init_args :: "kwargs option"
  b_init_args :: "kwargs option"
  name :: string

subsection \<open>The collaborators\<close>

text \<open>
  The methods of the base class and the primitives of the framework that the constructor
  calls. Of their failures only the rejection of a padding or a data format by the
  convolution primitive is modelled; an invalid scope name, a variable that exists already
  or operands whose shapes do not fit are not.
\<close>

definition Layer_init ::
  "PrevLayer \<Rightarrow> string option \<Rightarrow> kwargs option \<Rightarrow> kwargs option \<Rightarrow> string \<Rightarrow> Layer" where
  \<comment> \<open>Modelled from the spec: the base constructor \<^verbatim>\<open>Layer.__init__\<close> (tensorlayer/layers/core.py,
      not among the sources). It leaves in \<^verbatim>\<open>self.inputs\<close> the output of the previous layer (the layer's
      input activations), keeps the name and the activation, and turns a missing keyword
      dictionary into the empty one.\<close>
  "Layer_init prev a wargs bargs nm =
     \<lparr> layer_name = nm,
       layer_act = a,
       layer_W_init_args = (case wargs of None \<Rightarrow> [] | Some kw \<Rightarrow> kw),
       layer_b_init_args = (case bargs of None \<Rightarrow> [] | Some kw \<Rightarrow> kw),
       inputs = prev_outputs prev,
       outputs = None,
       local_weights = [],
       all_layers = prev_all_layers prev,
       all_params = prev_all_params prev \<rparr>"

definition get_tf_variable ::
  "Layer \<Rightarrow> string \<Rightarrow> string \<Rightarrow> shape_arg \<Rightarrow> initializer \<Rightarrow> tensor \<Rightarrow> kwargs \<Rightarrow> tensor \<times> Layer" where
  \<comment> \<open>Modelled from the spec: \<^verbatim>\<open>Layer._get_tf_variable\<close> (not among the sources), the parameter service
      \<^verbatim>\<open>get_or_create_variable(name, shape, initializer, dtype, **init_args)\<close>. It returns the
      variable named in the enclosing scope and records it among the layer's own weights.\<close>
  "get_tf_variable self scope vname shp init dt kw =
     (let v = Variable (scope @ ''/'' @ vname) shp init dt kw
      in (v, self\<lparr>local_weights := local_weights self @ [v]\<rparr>))"

definition conv2d ::
  "tensor \<Rightarrow> tensor \<Rightarrow> int list \<Rightarrow> string \<Rightarrow> bool \<Rightarrow> string option \<Rightarrow> error + tensor" where
  \<comment> \<open>Modelled from the spec: the convolution primitive \<^verbatim>\<open>tf.nn.conv2d\<close> (external, not among the sources),
      \<^verbatim>\<open>conv2d(input, filter, strides, padding: {"SAME","VALID"}, data_format: {"NHWC","NCHW"})\<close>.
      It makes the graph node when the padding and the data format are of these values (no
      data format is the default layout) and rejects the call otherwise. The arithmetic and
      the shapes of the operands are not modelled.\<close>
  "conv2d x w strides4 pad cudnn fmt =
     (if pad \<noteq> ''SAME'' \<and> pad \<noteq> ''VALID'' then Inl (ValueError ''padding'')
      else if fmt \<noteq> None \<and> fmt \<noteq> Some ''NHWC'' \<and> fmt \<noteq> Some ''NCHW''
        then Inl (ValueError ''data_format'')
      else Inr (Conv2D x w strides4 pad cudnn fmt))"

definition apply_activation :: "Layer \<Rightarrow> tensor \<Rightarrow> tensor" where
  \<comment> \<open>Modelled from the spec: \<^verbatim>\<open>Layer._apply_activation\<close> (not among the sources): the activation
      function applied last, \<^verbatim>\<open>None\<close> meaning the identity.\<close>
  "apply_activation self x = (case layer_act self of None \<Rightarrow> x | Some f \<Rightarrow> Activation f x)"

definition add_layers :: "Layer \<Rightarrow> tensor \<Rightarrow> Layer" where
  \<comment> \<open>Modelled from the spec: \<^verbatim>\<open>Layer._add_layers\<close> (not among the sources) registers the output tensor.\<close>
  "add_layers self x = self\<lparr>all_layers := all_layers self @ [x]\<rparr>"

definition add_params :: "Layer \<Rightarrow> tensor list \<Rightarrow> Layer" where
  \<comment> \<open>Modelled from the spec: \<^verbatim>\<open>Layer._add_params\<close> (not among the sources),
      \<^verbatim>\<open>register_parameters(tensor_list)\<close>: the tensors become parameters of this layer.\<close>
  "add_params self ps = self\<lparr>all_params := all_params self @ ps\<rparr>"

subsection \<open>The constructor\<close>

text \<open>
  Line 119, \<^verbatim>\<open>int(prev_layer.outputs.get_shape()[-1])\<close>. Indexing a shape of unknown rank
  gives an unknown dimension; indexing a shape of rank 0 raises \<^verbatim>\<open>IndexError\<close>; \<^verbatim>\<open>int\<close> of
  an unknown dimension raises \<^verbatim>\<open>TypeError\<close>.
\<close>

definition get_shape_last :: "static_shape \<Rightarrow> error + int option" where
  "get_shape_last sh =
     (case sh of
        None \<Rightarrow> Inr None
      | Some ds \<Rightarrow> (if ds = [] then Inl IndexError else Inr (last ds)))"

definition Dimension_int :: "int option \<Rightarrow> error + int" where
  "Dimension_int d = (case d of None \<Rightarrow> Inl TypeError | Some n \<Rightarrow> Inr n)"

definition channel_conversion :: "PrevLayer \<Rightarrow> error + int" where
  "channel_conversion prev =
     (case get_shape_last (prev_outputs_shape prev) of
        Inl e \<Rightarrow> Inl e
      | Inr d \<Rightarrow> Dimension_int d)"

text \<open>
  Lines 118 to 122: the \<^verbatim>\<open>try\<close> with its \<^verbatim>\<open>except TypeError\<close>. The result is the channel
  count and what was logged; any other exception leaves the constructor.
\<close>

definition get_input_channels :: "PrevLayer \<Rightarrow> error + (int \<times> event list)" where
  "get_input_channels prev =
     (case channel_conversion prev of
        Inr n \<Rightarrow> Inr (n, [])
      | Inl e \<Rightarrow>
          (if e = TypeError
           then Inr (1, [Log_warning ''[warnings] unknow input channels, set to 1''])
           else Inl e))"

text \<open>
  Lines 127 to 146, the body of \<^verbatim>\<open>with tf.variable_scope(name)\<close>, from the state of
  \<^verbatim>\<open>self\<close>, the 4-tuple \<^verbatim>\<open>shape\<close> and the expanded strides. It returns the exception
  raised or the tensor left in \<^verbatim>\<open>self.outputs\<close>, with the state of \<^verbatim>\<open>self\<close> and the calls
  made. The local name \<^verbatim>\<open>W\<close> is rebound to the quantized weight at line 132; the variable
  itself stays in \<^verbatim>\<open>self._local_weights\<close>.
\<close>

definition conv_block ::
  "Args \<Rightarrow> Layer \<Rightarrow> int list \<Rightarrow> int list \<Rightarrow> (error + tensor) \<times> Layer \<times> event list" where
  "conv_block a self shape strides4 =
     (let (W, self1) = get_tf_variable self (name a) ''W_conv2d'' (Dims shape) (W_init a)
                         (inputs self) (layer_W_init_args self);
          Wq = QuantizeWeightOverflow W (bitW a);
          tr1 = [Call_get_tf_variable (name a @ ''/'' @ ''W_conv2d'') (Dims shape) (W_init a)
                   (inputs self) (layer_W_init_args self),
                 Call_quantize_weight_overflow W (bitW a),
                 Call_conv2d (inputs self1) Wq strides4 (padding a) (use_cudnn_on_gpu a)
                   (data_format a)]
      in case conv2d (inputs self1) Wq strides4 (padding a) (use_cudnn_on_gpu a) (data_format a) of
           Inl e \<Rightarrow> (Inl e, self1, tr1)
         | Inr y \<Rightarrow>
             (let self2 = self1\<lparr>outputs := Some y\<rparr>;
                  (y3, self3, tr3) =
                    (case b_init a of
                       None \<Rightarrow> (y, self2, tr1)
                     | Some bi \<Rightarrow>
                         (let (b, s) = get_tf_variable self2 (name a) ''b_conv2d''
                                         (Dim (last shape)) bi (inputs self2)
                                         (layer_b_init_args self2);
                              yb = BiasAdd y b
                          in (yb, s\<lparr>outputs := Some yb\<rparr>,
                              tr1 @ [Call_get_tf_variable (name a @ ''/'' @ ''b_conv2d'')
                                       (Dim (last shape)) bi (inputs self2)
                                       (layer_b_init_args self2),
                                     Call_bias_add y b])));
                  y4 = apply_activation self3 y3
              in (Inr y4, self3\<lparr>outputs := Some y4\<rparr>, tr3 @ [Call_apply_activation y3])))"

text \<open>The whole of \<^verbatim>\<open>__init__\<close>, lines 100 to 149.\<close>

definition QuantizedConv2d_init :: "Args \<Rightarrow> error option \<times> Layer \<times> event list" where
  "QuantizedConv2d_init a =
     (let self0 = Layer_init (prev_layer a) (act a) (W_init_args a) (b_init_args a) (name a);
          tr0 = [Log_info (layer_name self0) (n_filter a) (filter_size a) (strides a) (padding a)
                   (case layer_act self0 of None \<Rightarrow> ''No Activation'' | Some f \<Rightarrow> f),
                 Call_quantize_active_overflow (inputs self0) (bitA a)];
          self1 = self0\<lparr>inputs := QuantizeActiveOverflow (inputs self0) (bitA a)\<rparr>
      in if use_gemm a
           then (Some (Exception ''TODO. The current version use tf.matmul for inferencing.''),
                 self1, tr0)
         else if length (strides a) \<noteq> 2
           then (Some (ValueError ''len(strides) should be 2.''), self1, tr0)
         else
           (case get_input_channels (prev_layer a) of
              Inl e \<Rightarrow> (Some e, self1, tr0)
            | Inr (input_channels, logged) \<Rightarrow>
                (if length (filter_size a) < 2 then (Some IndexError, self1, tr0 @ logged)
                 else
                   (let shape = [filter_size a ! 0, filter_size a ! 1, input_channels, n_filter a];
                        strides4 = [1, strides a ! 0, strides a ! 1, 1]
                    in case conv_block a self1 shape strides4 of
                         (Inl e, self2, tr) \<Rightarrow> (Some e, self2, tr0 @ logged @ tr)
                       | (Inr y, self2, tr) \<Rightarrow>
                           (let self3 = add_layers self2 y;
                                self4 = add_params self3 (local_weights self3)
                            in (None, self4,
                                tr0 @ logged @ tr @
                                  [Call_add_layers y, Call_add_params (local_weights self3)]))))))"

section \<open>The weight quantizer\<close>

text \<open>
  The quantizers are imported from \<^verbatim>\<open>tensorlayer.layers.utils\<close>, which is not among the
  sources; the weight quantizer is modelled from sections 3 and 4.1 of the specification. A
  tensor is its shape and its elements in row-major order. The elements are real numbers
  and the arithmetic is exact: the rounding errors of floating-point arithmetic are not
  modelled, and nothing that depends on them is derived from these definitions (the
  results below are about the all-zero tensor, where nothing is rounded). A division by zero has no number as its result: it yields \<open>None\<close>,
  and a tensor with such an element is \<open>None\<close>. A bit width \<open>b\<close> (the \<^verbatim>\<open>bitW\<close> of the call) is
  a natural number.
\<close>

record ntensor =
  tshape :: "nat list"
  tvals :: "real list"

definition levels :: "nat \<Rightarrow> real" where
  \<comment> \<open>Modelled from the spec: the constant \<^verbatim>\<open>2^b - 1\<close> of the quantizers.\<close>
  "levels b = 2 ^ b - 1"

definition checked_div :: "real \<Rightarrow> real \<Rightarrow> real option" where
  \<comment> \<open>Modelled from the spec: the division of tensor elements, with the division by zero
      (NaN) that section 4.1 asks to guard against made visible.\<close>
  "checked_div x y = (if y = 0 then None else Some (x / y))"

definition quantize_uniform :: "nat \<Rightarrow> real \<Rightarrow> real option" where
  \<comment> \<open>Modelled from the spec: \<^verbatim>\<open>round(x * (2^b - 1)) / (2^b - 1)\<close>.\<close>
  "quantize_uniform b x = checked_div (of_int (round (x * levels b))) (levels b)"

definition elementwise :: "(real \<Rightarrow> real option) \<Rightarrow> ntensor \<Rightarrow> ntensor option" where
  \<comment> \<open>Modelled from the spec: a transform applied to every element, the shape kept.\<close>
  "elementwise f X = map_option (\<lambda>vs. X\<lparr>tvals := vs\<rparr>) (those (map f (tvals X)))"

definition maxabs :: "real list \<Rightarrow> real" where
  \<comment> \<open>Modelled from the spec: step 1 of section 4.1, \<^verbatim>\<open>max(abs(W))\<close> over the whole tensor.\<close>
  "maxabs vs = foldr (\<lambda>v m. max \<bar>v\<bar> m) vs 0"

definition sign1 :: "real \<Rightarrow> real" where
  \<comment> \<open>Modelled from the spec: the sign, with \<^verbatim>\<open>sign(0)\<close> taken as \<^verbatim>\<open>+1\<close>.\<close>
  "sign1 w = (if w < 0 then - 1 else 1)"

definition quantize_weight_element :: "nat \<Rightarrow> real \<Rightarrow> real \<Rightarrow> real option" where
  \<comment> \<open>Modelled from the spec: steps 2 and 3 of section 4.1 on one element \<open>w\<close>, for the scale
      \<open>s\<close>: the binary case \<^verbatim>\<open>sign(W) * maxabs\<close>; otherwise \<^verbatim>\<open>W' = W / (2*s) + 0.5\<close>, quantized
      to \<^verbatim>\<open>2^bitW\<close> levels, mapped back by \<^verbatim>\<open>(W'_q - 0.5) * 2 * s\<close>.\<close>
  "quantize_weight_element b s w =
     (if b = 1 then Some (sign1 w * s)
      else (case checked_div w (2 * s) of
              None \<Rightarrow> None
            | Some r \<Rightarrow>
                (case quantize_uniform b (r + 1 / 2) of
                   None \<Rightarrow> None
                 | Some q \<Rightarrow> Some ((q - 1 / 2) * 2 * s))))"

definition quantize_weight_steps :: "ntensor \<Rightarrow> nat \<Rightarrow> ntensor option" where
  \<comment> \<open>Modelled from the spec: steps 1 to 3 of section 4.1 as they are listed, without the guard.\<close>
  "quantize_weight_steps W b = elementwise (quantize_weight_element b (maxabs (tvals W))) W"

definition quantize_weight_overflow :: "ntensor \<Rightarrow> nat \<Rightarrow> ntensor option" where
  \<comment> \<open>Modelled from the spec: \<^verbatim>\<open>quantize_weight_overflow\<close> (tensorlayer/layers/utils.py, not among
      the sources), section 4.1: the steps, behind the guard the section prescribes for a dynamic
      range of zero (the zero tensor is returned).\<close>
  "quantize_weight_overflow W b =
     (if maxabs (tvals W) = 0 then Some (W\<lparr>tvals := map (\<lambda>w. 0) (tvals W)\<rparr>)
      else quantize_weight_steps W b)"

section \<open>Vocabulary of the statements\<close>

subsection \<open>The tensors a construction makes\<close>

definition quantized_inputs :: "Args \<Rightarrow> tensor" where
  "quantized_inputs a = QuantizeActiveOverflow (prev_outputs (prev_layer a)) (bitA a)"

definition input_channels :: "Args \<Rightarrow> int" where
  \<comment> \<open>The value of the constructor's local variable \<^verbatim>\<open>input_channels\<close> after lines 118 to
      122: the last static dimension of the input, else 1. The data format is not looked at,
      so this is the input's channel count only when the channels are the last dimension.\<close>
  "input_channels a = (case channel_conversion (prev_layer a) of Inr n \<Rightarrow> n | Inl e \<Rightarrow> 1)"

definition weight_variable :: "Args \<Rightarrow> tensor" where
  "weight_variable a =
     Variable (name a @ ''/W_conv2d'')
       (Dims [filter_size a ! 0, filter_size a ! 1, input_channels a, n_filter a])
       (W_init a) (quantized_inputs a) (case W_init_args a of None \<Rightarrow> [] | Some kw \<Rightarrow> kw)"

definition bias_variable :: "Args \<Rightarrow> initializer \<Rightarrow> tensor" where
  "bias_variable a bi =
     Variable (name a @ ''/b_conv2d'') (Dim (n_filter a)) bi (quantized_inputs a)
       (case b_init_args a of None \<Rightarrow> [] | Some kw \<Rightarrow> kw)"

definition conv_output :: "Args \<Rightarrow> tensor" where
  "conv_output a =
     Conv2D (quantized_inputs a) (QuantizeWeightOverflow (weight_variable a) (bitW a))
       [1, strides a ! 0, strides a ! 1, 1] (padding a) (use_cudnn_on_gpu a) (data_format a)"

definition biased_output :: "Args \<Rightarrow> tensor" where
  "biased_output a =
     (case b_init a of
        None \<Rightarrow> conv_output a
      | Some bi \<Rightarrow> BiasAdd (conv_output a) (bias_variable a bi))"

definition layer_output :: "Args \<Rightarrow> tensor" where
  "layer_output a =
     (case act a of None \<Rightarrow> biased_output a | Some f \<Rightarrow> Activation f (biased_output a))"

definition layer_weights :: "Args \<Rightarrow> tensor list" where
  "layer_weights a =
     weight_variable a # (case b_init a of None \<Rightarrow> [] | Some bi \<Rightarrow> [bias_variable a bi])"

subsection \<open>The channels of an input\<close>

definition format_channels :: "string option \<Rightarrow> static_shape \<Rightarrow> int option" where
  \<comment> \<open>Modelled from the spec: the two layouts that the data format of the convolution
      primitive names (section 6), N batch, H height, W width, C channels. The channel
      count of an input is its dimension at the place of C: the second with "NCHW", the
      last with "NHWC", which is the layout when no data format is given. \<open>None\<close> is an
      unknown count.\<close>
  "format_channels fmt sh =
     (case sh of
        None \<Rightarrow> None
      | Some ds \<Rightarrow>
          (if fmt = Some ''NCHW'' then (if 1 < length ds then ds ! 1 else None)
           else (if ds = [] then None else last ds)))"

subsection \<open>How far a construction gets\<close>

definition reaches_conv :: "Args \<Rightarrow> bool" where
  \<comment> \<open>The arguments with which the constructor gets to line 127.\<close>
  "reaches_conv a \<longleftrightarrow>
     \<not> use_gemm a \<and> length (strides a) = 2 \<and> prev_outputs_shape (prev_layer a) \<noteq> Some [] \<and>
     2 \<le> length (filter_size a)"

definition accepted :: "Args \<Rightarrow> bool" where
  "accepted a \<longleftrightarrow>
     \<not> use_gemm a \<and> length (strides a) = 2 \<and> prev_outputs_shape (prev_layer a) \<noteq> Some [] \<and>
     2 \<le> length (filter_size a) \<and> (padding a = ''SAME'' \<or> padding a = ''VALID'') \<and>
     (data_format a = None \<or> data_format a = Some ''NHWC'' \<or> data_format a = Some ''NCHW'')"

subsection \<open>Reading a trace\<close>

fun requested_shapes :: "event list \<Rightarrow> shape_arg list" where
  "requested_shapes [] = []"
| "requested_shapes (Call_get_tf_variable n s i t k # es) = s # requested_shapes es"
| "requested_shapes (e # es) = requested_shapes es"

fun conv_filters :: "event list \<Rightarrow> tensor list" where
  "conv_filters [] = []"
| "conv_filters (Call_conv2d x w s p c f # es) = w # conv_filters es"
| "conv_filters (e # es) = conv_filters es"

fun bias_operands :: "event list \<Rightarrow> tensor list" where
  "bias_operands [] = []"
| "bias_operands (Call_bias_add x b # es) = b # bias_operands es"
| "bias_operands (e # es) = bias_operands es"

fun quantizer_operands :: "event list \<Rightarrow> tensor list" where
  "quantizer_operands [] = []"
| "quantizer_operands (Call_quantize_active_overflow t k # es) = t # quantizer_operands es"
| "quantizer_operands (Call_quantize_weight_overflow t k # es) = t # quantizer_operands es"
| "quantizer_operands (e # es) = quantizer_operands es"

fun registered_params :: "event list \<Rightarrow> tensor list" where
  "registered_params [] = []"
| "registered_params (Call_add_params ps # es) = ps @ registered_params es"
| "registered_params (e # es) = registered_params es"

subsection \<open>Concrete inputs\<close>

text \<open>The first layer of the example in the class's docstring.\<close>

definition example_args :: Args where
  "example_args =
     \<lparr> prev_layer = \<lparr> prev_outputs = Upstream ''input'',
                      prev_outputs_shape = Some [None, Some 256, Some 256, Some 3],
                      prev_all_layers = [Upstream ''input''], prev_all_params = [] \<rparr>,
       n_filter = 32, filter_size = [5, 5], strides = [1, 1], padding = ''SAME'',
       act = Some ''relu'', bitW = 8, bitA = 8, use_gemm = False, use_cudnn_on_gpu = True,
       data_format = None, W_init = ''truncated_normal_initializer'',
       b_init = Some ''constant_initializer'', W_init_args = None, b_init_args = None,
       name = ''qcnn1'' \<rparr>"

text \<open>The same layer after a layer whose output has no static dimension.\<close>

definition unknown_channels_args :: Args where
  "unknown_channels_args =
     example_args\<lparr>prev_layer :=
       (prev_layer example_args)\<lparr>prev_outputs_shape := Some [None, None, None, None]\<rparr>\<rparr>"

text \<open>The same layer on a channels-first input of 3 channels, 8 rows and 8 columns.\<close>

definition nchw_args :: Args where
  "nchw_args =
     example_args\<lparr>prev_layer :=
         (prev_layer example_args)\<lparr>prev_outputs_shape := Some [None, Some 3, Some 8, Some 8]\<rparr>,
       data_format := Some ''NCHW''\<rparr>"

definition zero_tensor :: ntensor where
  "zero_tensor = \<lparr>tshape = [2, 2], tvals = [0, 0, 0, 0]\<rparr>"

section \<open>The constructor, path by path\<close>

lemma get_input_channels_cases:
  "get_input_channels p =
     (if prev_outputs_shape p = Some [] then Inl IndexError
      else if channel_conversion p = Inl TypeError
        then Inr (1, [Log_warning ''[warnings] unknow input channels, set to 1''])
      else Inr (case channel_conversion p of Inr n \<Rightarrow> n | Inl e \<Rightarrow> 1, []))"
  by (auto simp: get_input_channels_def channel_conversion_def get_shape_last_def Dimension_int_def
      split: option.splits sum.splits)

lemma channel_conversion_TypeError:
  "channel_conversion p = Inl TypeError \<Longrightarrow> prev_outputs_shape p \<noteq> Some []"
  by (auto simp: channel_conversion_def get_shape_last_def)

lemma conv2d_accepts:
  "(pad = ''SAME'' \<or> pad = ''VALID'') \<Longrightarrow>
   (fmt = None \<or> fmt = Some ''NHWC'' \<or> fmt = Some ''NCHW'') \<Longrightarrow>
   conv2d x w s pad cudnn fmt = Inr (Conv2D x w s pad cudnn fmt)"
  by (auto simp: conv2d_def)

lemma conv2d_rejects_padding:
  "pad \<noteq> ''SAME'' \<Longrightarrow> pad \<noteq> ''VALID'' \<Longrightarrow>
   conv2d x w s pad cudnn fmt = Inl (ValueError ''padding'')"
  by (simp add: conv2d_def)

lemma conv2d_rejects_format:
  "(pad = ''SAME'' \<or> pad = ''VALID'') \<Longrightarrow>
   fmt \<noteq> None \<Longrightarrow> fmt \<noteq> Some ''NHWC'' \<Longrightarrow> fmt \<noteq> Some ''NCHW'' \<Longrightarrow>
   conv2d x w s pad cudnn fmt = Inl (ValueError ''data_format'')"
  by (auto simp: conv2d_def)

lemma accepted_reaches:
  "accepted a \<longleftrightarrow> reaches_conv a \<and> (padding a = ''SAME'' \<or> padding a = ''VALID'') \<and>
     (data_format a = None \<or> data_format a = Some ''NHWC'' \<or> data_format a = Some ''NCHW'')"
  by (auto simp: accepted_def reaches_conv_def)

lemma init_use_gemm:
  "use_gemm a \<Longrightarrow> QuantizedConv2d_init a =
     (Some (Exception ''TODO. The current version use tf.matmul for inferencing.''),
      (Layer_init (prev_layer a) (act a) (W_init_args a) (b_init_args a) (name a))
        \<lparr>inputs := quantized_inputs a\<rparr>,
      [Log_info (name a) (n_filter a) (filter_size a) (strides a) (padding a)
         (case act a of None \<Rightarrow> ''No Activation'' | Some f \<Rightarrow> f),
       Call_quantize_active_overflow (prev_outputs (prev_layer a)) (bitA a)])"
  by (simp add: QuantizedConv2d_init_def Let_def Layer_init_def quantized_inputs_def)

lemma init_bad_strides:
  "\<not> use_gemm a \<Longrightarrow> length (strides a) \<noteq> 2 \<Longrightarrow> QuantizedConv2d_init a =
     (Some (ValueError ''len(strides) should be 2.''),
      (Layer_init (prev_layer a) (act a) (W_init_args a) (b_init_args a) (name a))
        \<lparr>inputs := quantized_inputs a\<rparr>,
      [Log_info (name a) (n_filter a) (filter_size a) (strides a) (padding a)
         (case act a of None \<Rightarrow> ''No Activation'' | Some f \<Rightarrow> f),
       Call_quantize_active_overflow (prev_outputs (prev_layer a)) (bitA a)])"
  by (simp add: QuantizedConv2d_init_def Let_def Layer_init_def quantized_inputs_def)

lemma init_rank0:
  "\<not> use_gemm a \<Longrightarrow> length (strides a) = 2 \<Longrightarrow> prev_outputs_shape (prev_layer a) = Some [] \<Longrightarrow>
   QuantizedConv2d_init a =
     (Some IndexError,
      (Layer_init (prev_layer a) (act a) (W_init_args a) (b_init_args a) (name a))
        \<lparr>inputs := quantized_inputs a\<rparr>,
      [Log_info (name a) (n_filter a) (filter_size a) (strides a) (padding a)
         (case act a of None \<Rightarrow> ''No Activation'' | Some f \<Rightarrow> f),
       Call_quantize_active_overflow (prev_outputs (prev_layer a)) (bitA a)])"
  by (simp add: QuantizedConv2d_init_def Let_def Layer_init_def quantized_inputs_def
      get_input_channels_cases)

lemma init_short_filter:
  "\<not> use_gemm a \<Longrightarrow> length (strides a) = 2 \<Longrightarrow> prev_outputs_shape (prev_layer a) \<noteq> Some [] \<Longrightarrow>
   \<not> 2 \<le> length (filter_size a) \<Longrightarrow>
   QuantizedConv2d_init a =
     (Some IndexError,
      (Layer_init (prev_layer a) (act a) (W_init_args a) (b_init_args a) (name a))
        \<lparr>inputs := quantized_inputs a\<rparr>,
      [Log_info (name a) (n_filter a) (filter_size a) (strides a) (padding a)
         (case act a of None \<Rightarrow> ''No Activation'' | Some f \<Rightarrow> f),
       Call_quantize_active_overflow (prev_outputs (prev_layer a)) (bitA a)] @
      (if channel_conversion (prev_layer a) = Inl TypeError
       then [Log_warning ''[warnings] unknow input channels, set to 1''] else []))"
  by (simp add: QuantizedConv2d_init_def Let_def Layer_init_def quantized_inputs_def
      get_input_channels_cases not_le)

lemma init_conv_rejected:
  assumes "reaches_conv a"
    and "conv2d (quantized_inputs a) (QuantizeWeightOverflow (weight_variable a) (bitW a))
           [1, strides a ! 0, strides a ! 1, 1] (padding a) (use_cudnn_on_gpu a) (data_format a)
         = Inl e"
  shows "QuantizedConv2d_init a =
    (Some e,
     (Layer_init (prev_layer a) (act a) (W_init_args a) (b_init_args a) (name a))
        \<lparr>inputs := quantized_inputs a, local_weights := [weight_variable a]\<rparr>,
     [Log_info (name a) (n_filter a) (filter_size a) (strides a) (padding a)
        (case act a of None \<Rightarrow> ''No Activation'' | Some f \<Rightarrow> f),
      Call_quantize_active_overflow (prev_outputs (prev_layer a)) (bitA a)] @
     (if channel_conversion (prev_layer a) = Inl TypeError
      then [Log_warning ''[warnings] unknow input channels, set to 1''] else []) @
     [Call_get_tf_variable (name a @ ''/W_conv2d'')
        (Dims [filter_size a ! 0, filter_size a ! 1, input_channels a, n_filter a]) (W_init a)
        (quantized_inputs a) (case W_init_args a of None \<Rightarrow> [] | Some kw \<Rightarrow> kw),
      Call_quantize_weight_overflow (weight_variable a) (bitW a),
      Call_conv2d (quantized_inputs a) (QuantizeWeightOverflow (weight_variable a) (bitW a))
        [1, strides a ! 0, strides a ! 1, 1] (padding a) (use_cudnn_on_gpu a) (data_format a)])"
proof -
  from assms(1) have g: "\<not> use_gemm a" and s: "length (strides a) = 2"
    and r: "prev_outputs_shape (prev_layer a) \<noteq> Some []" and f: "\<not> length (filter_size a) < 2"
    by (auto simp: reaches_conv_def)
  show ?thesis
    using assms(2)
    by (cases "channel_conversion (prev_layer a) = Inl TypeError")
      (simp_all add: QuantizedConv2d_init_def conv_block_def get_tf_variable_def g s r f
        get_input_channels_cases Let_def Layer_init_def quantized_inputs_def input_channels_def
        weight_variable_def)
qed

lemma init_accepted:
  assumes "accepted a"
  shows "QuantizedConv2d_init a =
    (None,
     \<lparr> layer_name = name a, layer_act = act a,
       layer_W_init_args = (case W_init_args a of None \<Rightarrow> [] | Some kw \<Rightarrow> kw),
       layer_b_init_args = (case b_init_args a of None \<Rightarrow> [] | Some kw \<Rightarrow> kw),
       inputs = quantized_inputs a,
       outputs = Some (layer_output a),
       local_weights = layer_weights a,
       all_layers = prev_all_layers (prev_layer a) @ [layer_output a],
       all_params = prev_all_params (prev_layer a) @ layer_weights a \<rparr>,
     [Log_info (name a) (n_filter a) (filter_size a) (strides a) (padding a)
        (case act a of None \<Rightarrow> ''No Activation'' | Some f \<Rightarrow> f),
      Call_quantize_active_overflow (prev_outputs (prev_layer a)) (bitA a)] @
     (if channel_conversion (prev_layer a) = Inl TypeError
      then [Log_warning ''[warnings] unknow input channels, set to 1''] else []) @
     [Call_get_tf_variable (name a @ ''/W_conv2d'')
        (Dims [filter_size a ! 0, filter_size a ! 1, input_channels a, n_filter a]) (W_init a)
        (quantized_inputs a) (case W_init_args a of None \<Rightarrow> [] | Some kw \<Rightarrow> kw),
      Call_quantize_weight_overflow (weight_variable a) (bitW a),
      Call_conv2d (quantized_inputs a) (QuantizeWeightOverflow (weight_variable a) (bitW a))
        [1, strides a ! 0, strides a ! 1, 1] (padding a) (use_cudnn_on_gpu a) (data_format a)] @
     (case b_init a of None \<Rightarrow> []
      | Some bi \<Rightarrow>
          [Call_get_tf_variable (name a @ ''/b_conv2d'') (Dim (n_filter a)) bi (quantized_inputs a)
             (case b_init_args a of None \<Rightarrow> [] | Some kw \<Rightarrow> kw),
           Call_bias_add (conv_output a) (bias_variable a bi)]) @
     [Call_apply_activation (biased_output a),
      Call_add_layers (layer_output a),
      Call_add_params (layer_weights a)])"
proof -
  from assms have g: "\<not> use_gemm a" and s: "length (strides a) = 2"
    and r: "prev_outputs_shape (prev_layer a) \<noteq> Some []" and f: "\<not> length (filter_size a) < 2"
    and p: "padding a = ''SAME'' \<or> padding a = ''VALID''"
    and d: "data_format a = None \<or> data_format a = Some ''NHWC'' \<or> data_format a = Some ''NCHW''"
    by (auto simp: accepted_def)
  note c = conv2d_accepts [OF p d]
  show ?thesis
    by (cases "b_init a"; cases "act a"; cases "channel_conversion (prev_layer a) = Inl TypeError")
      (simp_all add: QuantizedConv2d_init_def conv_block_def get_tf_variable_def c g s r f
        get_input_channels_cases Let_def apply_activation_def add_layers_def add_params_def
        Layer_init_def quantized_inputs_def input_channels_def weight_variable_def
        bias_variable_def conv_output_def biased_output_def layer_output_def layer_weights_def)
qed

lemma init_reached_outcome:
  assumes "reaches_conv a"
  shows "fst (QuantizedConv2d_init a) =
     (case conv2d (quantized_inputs a) (QuantizeWeightOverflow (weight_variable a) (bitW a))
             [1, strides a ! 0, strides a ! 1, 1] (padding a) (use_cudnn_on_gpu a) (data_format a) of
        Inl e \<Rightarrow> Some e
      | Inr y \<Rightarrow> None)"
proof (cases "accepted a")
  case True
  then have "padding a = ''SAME'' \<or> padding a = ''VALID''"
    and "data_format a = None \<or> data_format a = Some ''NHWC'' \<or> data_format a = Some ''NCHW''"
    by (simp_all add: accepted_reaches)
  then show ?thesis using True by (simp add: conv2d_accepts init_accepted)
next
  case False
  show ?thesis
  proof (cases "padding a = ''SAME'' \<or> padding a = ''VALID''")
    case p: True
    with False assms have "data_format a \<noteq> None" "data_format a \<noteq> Some ''NHWC''"
      "data_format a \<noteq> Some ''NCHW''"
      by (simp_all add: accepted_reaches)
    note c = conv2d_rejects_format [OF p this]
    show ?thesis using init_conv_rejected [OF assms c] by (simp add: c)
  next
    case False
    then have "padding a \<noteq> ''SAME''" "padding a \<noteq> ''VALID''" by simp_all
    note c = conv2d_rejects_padding [OF this]
    show ?thesis using init_conv_rejected [OF assms c] by (simp add: c)
  qed
qed

lemma init_accepted_iff: "fst (QuantizedConv2d_init a) = None \<longleftrightarrow> accepted a"
proof
  assume "accepted a"
  then show "fst (QuantizedConv2d_init a) = None" by (simp add: init_accepted)
next
  assume n: "fst (QuantizedConv2d_init a) = None"
  have r: "reaches_conv a"
  proof (rule ccontr)
    assume "\<not> reaches_conv a"
    then consider "use_gemm a" | "\<not> use_gemm a" "length (strides a) \<noteq> 2"
      | "\<not> use_gemm a" "length (strides a) = 2" "prev_outputs_shape (prev_layer a) = Some []"
      | "\<not> use_gemm a" "length (strides a) = 2" "prev_outputs_shape (prev_layer a) \<noteq> Some []"
        "\<not> 2 \<le> length (filter_size a)"
      unfolding reaches_conv_def by blast
    then show False
      using n by cases (simp_all add: init_use_gemm init_bad_strides init_rank0 init_short_filter)
  qed
  from n init_reached_outcome [OF r] show "accepted a"
    using r by (auto simp: accepted_reaches conv2d_def split: if_splits)
qed

lemma bias_variable_not_weight: "bias_variable a bi \<noteq> weight_variable a"
  by (simp add: bias_variable_def weight_variable_def)

lemma bias_variable_not_upstream: "bias_variable a bi \<noteq> prev_outputs (prev_layer a)"
proof
  assume "bias_variable a bi = prev_outputs (prev_layer a)"
  then have "size (bias_variable a bi) = size (prev_outputs (prev_layer a))" by simp
  then show False by (simp add: bias_variable_def quantized_inputs_def)
qed

section \<open>The claims about the layer\<close>

text \<open>
  C1. A construction that succeeds makes its calls in this order: the log line; the
  activation quantizer on the input activations with \<open>bitA\<close>; the warning, when the channel
  count was unknown; the creation of the floating-point weight; the weight quantizer on
  that weight with \<open>bitW\<close>; the convolution primitive on the quantized activations and the
  quantized weight; when \<open>b_init\<close> is not \<open>None\<close>, the creation of the bias and its addition,
  unquantized; the activation function (the identity when \<open>None\<close>); the registration of the
  output, and last that of the parameters. The output registered is the one left in
  \<open>self.outputs\<close>.
\<close>

theorem init_step_order:
  assumes "fst (QuantizedConv2d_init a) = None"
  shows "snd (snd (QuantizedConv2d_init a)) =
     [Log_info (name a) (n_filter a) (filter_size a) (strides a) (padding a)
        (case act a of None \<Rightarrow> ''No Activation'' | Some f \<Rightarrow> f),
      Call_quantize_active_overflow (prev_outputs (prev_layer a)) (bitA a)] @
     (if channel_conversion (prev_layer a) = Inl TypeError
      then [Log_warning ''[warnings] unknow input channels, set to 1''] else []) @
     [Call_get_tf_variable (name a @ ''/W_conv2d'')
        (Dims [filter_size a ! 0, filter_size a ! 1, input_channels a, n_filter a]) (W_init a)
        (quantized_inputs a) (case W_init_args a of None \<Rightarrow> [] | Some kw \<Rightarrow> kw),
      Call_quantize_weight_overflow (weight_variable a) (bitW a),
      Call_conv2d (quantized_inputs a) (QuantizeWeightOverflow (weight_variable a) (bitW a))
        [1, strides a ! 0, strides a ! 1, 1] (padding a) (use_cudnn_on_gpu a) (data_format a)] @
     (case b_init a of None \<Rightarrow> []
      | Some bi \<Rightarrow>
          [Call_get_tf_variable (name a @ ''/b_conv2d'') (Dim (n_filter a)) bi (quantized_inputs a)
             (case b_init_args a of None \<Rightarrow> [] | Some kw \<Rightarrow> kw),
           Call_bias_add (conv_output a) (bias_variable a bi)]) @
     [Call_apply_activation (biased_output a),
      Call_add_layers (layer_output a),
      Call_add_params (layer_weights a)]
   \<and> outputs (fst (snd (QuantizedConv2d_init a))) = Some (layer_output a)"
proof -
  from assms have "accepted a" by (simp add: init_accepted_iff)
  then show ?thesis by (simp add: init_accepted)
qed

theorem init_step_order_witness:
  "(let Xq = QuantizeActiveOverflow (Upstream ''input'') 8;
        W = Variable ''qcnn1/W_conv2d'' (Dims [5, 5, 3, 32]) ''truncated_normal_initializer'' Xq [];
        b = Variable ''qcnn1/b_conv2d'' (Dim 32) ''constant_initializer'' Xq [];
        y = Conv2D Xq (QuantizeWeightOverflow W 8) [1, 1, 1, 1] ''SAME'' True None
    in fst (QuantizedConv2d_init example_args) = None \<and>
       snd (snd (QuantizedConv2d_init example_args)) =
         [Log_info ''qcnn1'' 32 [5, 5] [1, 1] ''SAME'' ''relu'',
          Call_quantize_active_overflow (Upstream ''input'') 8,
          Call_get_tf_variable ''qcnn1/W_conv2d'' (Dims [5, 5, 3, 32])
            ''truncated_normal_initializer'' Xq [],
          Call_quantize_weight_overflow W 8,
          Call_conv2d Xq (QuantizeWeightOverflow W 8) [1, 1, 1, 1] ''SAME'' True None,
          Call_get_tf_variable ''qcnn1/b_conv2d'' (Dim 32) ''constant_initializer'' Xq [],
          Call_bias_add y b,
          Call_apply_activation (BiasAdd y b),
          Call_add_layers (Activation ''relu'' (BiasAdd y b)),
          Call_add_params [W, b]])"
proof -
  have h: "fst (QuantizedConv2d_init example_args) = None"
    by (simp add: init_accepted_iff accepted_def example_args_def)
  show ?thesis
    using h init_step_order [OF h]
    by (simp add: example_args_def quantized_inputs_def input_channels_def weight_variable_def
        bias_variable_def conv_output_def biased_output_def layer_output_def layer_weights_def
        channel_conversion_def get_shape_last_def Dimension_int_def)
qed

text \<open>
  C3. With \<open>use_gemm\<close> the constructor raises the exception of the unimplemented path; without
  it and with strides that do not have exactly 2 components it raises the \<open>ValueError\<close>;
  in both cases the constructor itself fails (the check of \<open>use_gemm\<close> comes first, so its
  exception is the one raised when both hold).
\<close>

theorem init_rejects_configuration:
  "(use_gemm a \<longrightarrow>
      fst (QuantizedConv2d_init a) =
        Some (Exception ''TODO. The current version use tf.matmul for inferencing.'')) \<and>
   (\<not> use_gemm a \<and> length (strides a) \<noteq> 2 \<longrightarrow>
      fst (QuantizedConv2d_init a) = Some (ValueError ''len(strides) should be 2.'')) \<and>
   (use_gemm a \<or> length (strides a) \<noteq> 2 \<longrightarrow>
      fst (QuantizedConv2d_init a) \<noteq> None \<and>
      outputs (fst (snd (QuantizedConv2d_init a))) = None)"
proof (cases "use_gemm a")
  case True
  then show ?thesis by (simp add: init_use_gemm Layer_init_def)
next
  case False
  then show ?thesis by (cases "length (strides a) = 2") (simp_all add: init_bad_strides Layer_init_def)
qed

theorem init_rejects_configuration_witness:
  "use_gemm (example_args\<lparr>use_gemm := True\<rparr>) \<and>
   fst (QuantizedConv2d_init (example_args\<lparr>use_gemm := True\<rparr>)) =
     Some (Exception ''TODO. The current version use tf.matmul for inferencing.'') \<and>
   \<not> use_gemm (example_args\<lparr>strides := [1, 1, 1]\<rparr>) \<and>
   length (strides (example_args\<lparr>strides := [1, 1, 1]\<rparr>)) \<noteq> 2 \<and>
   fst (QuantizedConv2d_init (example_args\<lparr>strides := [1, 1, 1]\<rparr>)) =
     Some (ValueError ''len(strides) should be 2.'') \<and>
   outputs (fst (snd (QuantizedConv2d_init (example_args\<lparr>strides := [1, 1, 1]\<rparr>)))) = None"
  using init_rejects_configuration [of "example_args\<lparr>use_gemm := True\<rparr>"]
    init_rejects_configuration [of "example_args\<lparr>strides := [1, 1, 1]\<rparr>"]
  by (simp add: example_args_def)

text \<open>
  C4. A padding other than "SAME" and "VALID" makes the construction fail; with one of the
  two, the padding is accepted: whether the construction succeeds depends on the other
  arguments only. The rejection is that of the convolution primitive, to which the
  constructor hands the padding as it got it: with arguments that get as far as the
  primitive, the construction fails with the primitive's error, right after calling it.
\<close>

theorem init_padding_modes:
  "(padding a \<noteq> ''SAME'' \<and> padding a \<noteq> ''VALID'' \<longrightarrow> fst (QuantizedConv2d_init a) \<noteq> None) \<and>
   (padding a = ''SAME'' \<or> padding a = ''VALID'' \<longrightarrow>
      (fst (QuantizedConv2d_init a) = None \<longleftrightarrow>
         reaches_conv a \<and>
         (data_format a = None \<or> data_format a = Some ''NHWC'' \<or> data_format a = Some ''NCHW''))) \<and>
   (padding a \<noteq> ''SAME'' \<and> padding a \<noteq> ''VALID'' \<and> reaches_conv a \<longrightarrow>
      fst (QuantizedConv2d_init a) = Some (ValueError ''padding'') \<and>
      last (snd (snd (QuantizedConv2d_init a))) =
        Call_conv2d (quantized_inputs a) (QuantizeWeightOverflow (weight_variable a) (bitW a))
          [1, strides a ! 0, strides a ! 1, 1] (padding a) (use_cudnn_on_gpu a) (data_format a))"
proof (intro conjI impI)
  assume "padding a \<noteq> ''SAME'' \<and> padding a \<noteq> ''VALID''"
  then have "\<not> accepted a" by (simp add: accepted_def)
  then show "fst (QuantizedConv2d_init a) \<noteq> None" by (simp add: init_accepted_iff)
next
  assume "padding a = ''SAME'' \<or> padding a = ''VALID''"
  then show "fst (QuantizedConv2d_init a) = None \<longleftrightarrow>
         reaches_conv a \<and>
         (data_format a = None \<or> data_format a = Some ''NHWC'' \<or> data_format a = Some ''NCHW'')"
    by (simp add: init_accepted_iff accepted_reaches)
next
  assume h: "padding a \<noteq> ''SAME'' \<and> padding a \<noteq> ''VALID'' \<and> reaches_conv a"
  then have r: "reaches_conv a" and p: "padding a \<noteq> ''SAME''" "padding a \<noteq> ''VALID''" by simp_all
  note c = conv2d_rejects_padding [OF p]
  show "fst (QuantizedConv2d_init a) = Some (ValueError ''padding'')"
    by (simp add: init_conv_rejected [OF r c])
next
  assume h: "padding a \<noteq> ''SAME'' \<and> padding a \<noteq> ''VALID'' \<and> reaches_conv a"
  then have r: "reaches_conv a" and p: "padding a \<noteq> ''SAME''" "padding a \<noteq> ''VALID''" by simp_all
  note c = conv2d_rejects_padding [OF p]
  show "last (snd (snd (QuantizedConv2d_init a))) =
        Call_conv2d (quantized_inputs a) (QuantizeWeightOverflow (weight_variable a) (bitW a))
          [1, strides a ! 0, strides a ! 1, 1] (padding a) (use_cudnn_on_gpu a) (data_format a)"
    by (simp add: init_conv_rejected [OF r c])
qed

theorem init_padding_modes_witness:
  "fst (QuantizedConv2d_init (example_args\<lparr>padding := ''same''\<rparr>)) = Some (ValueError ''padding'') \<and>
   fst (QuantizedConv2d_init (example_args\<lparr>padding := ''SAME''\<rparr>)) = None \<and>
   fst (QuantizedConv2d_init (example_args\<lparr>padding := ''VALID''\<rparr>)) = None"
  using init_padding_modes [of "example_args\<lparr>padding := ''same''\<rparr>"]
    init_padding_modes [of "example_args\<lparr>padding := ''SAME''\<rparr>"]
    init_padding_modes [of "example_args\<lparr>padding := ''VALID''\<rparr>"]
  by (simp add: example_args_def reaches_conv_def)

text \<open>
  C5. When the conversion of the last dimension of the previous layer's static shape raises
  \<open>TypeError\<close>, the \<open>try\<close> yields the channel count 1 and logs the warning; the constructor,
  having got there, logs the warning, does not raise \<open>TypeError\<close>, and goes on: with a
  filter size of two components it asks for the weight of shape
  \<open>(filter_size[0], filter_size[1], 1, n_filter)\<close>, and it succeeds exactly when the
  convolution primitive accepts the padding and the data format.
\<close>

theorem init_unknown_channels_fallback:
  assumes "channel_conversion (prev_layer a) = Inl TypeError"
    and "\<not> use_gemm a" and "length (strides a) = 2"
  shows "get_input_channels (prev_layer a) =
           Inr (1, [Log_warning ''[warnings] unknow input channels, set to 1'']) \<and>
         Log_warning ''[warnings] unknow input channels, set to 1''
           \<in> set (snd (snd (QuantizedConv2d_init a))) \<and>
         fst (QuantizedConv2d_init a) \<noteq> Some TypeError \<and>
         (2 \<le> length (filter_size a) \<longrightarrow>
            hd (requested_shapes (snd (snd (QuantizedConv2d_init a)))) =
              Dims [filter_size a ! 0, filter_size a ! 1, 1, n_filter a] \<and>
            (fst (QuantizedConv2d_init a) = None \<longleftrightarrow>
               (padding a = ''SAME'' \<or> padding a = ''VALID'') \<and>
               (data_format a = None \<or> data_format a = Some ''NHWC'' \<or>
                data_format a = Some ''NCHW'')))"
proof -
  note t = assms(1)
  note r = channel_conversion_TypeError [OF t]
  have c: "input_channels a = 1" by (simp add: input_channels_def t)
  have g: "get_input_channels (prev_layer a) =
           Inr (1, [Log_warning ''[warnings] unknow input channels, set to 1''])"
    by (simp add: get_input_channels_cases r t)
  show ?thesis
  proof (cases "2 \<le> length (filter_size a)")
    case False
    then show ?thesis
      using g by (simp add: init_short_filter [OF assms(2,3) r False] t)
  next
    case True
    with assms(2,3) r have rc: "reaches_conv a" by (simp add: reaches_conv_def)
    show ?thesis
    proof (cases "accepted a")
      case True
      then show ?thesis
        using g rc by (simp add: init_accepted t c) (simp add: accepted_reaches)
    next
      case False
      then have n: "fst (QuantizedConv2d_init a) \<noteq> None" by (simp add: init_accepted_iff)
      from init_reached_outcome [OF rc] n obtain e where
        e: "conv2d (quantized_inputs a) (QuantizeWeightOverflow (weight_variable a) (bitW a))
             [1, strides a ! 0, strides a ! 1, 1] (padding a) (use_cudnn_on_gpu a) (data_format a)
            = Inl e"
        by (auto split: sum.splits)
      then have "e \<noteq> TypeError" by (auto simp: conv2d_def split: if_splits)
      then show ?thesis
        using g rc False \<open>2 \<le> length (filter_size a)\<close>
        by (simp add: init_conv_rejected [OF rc e] t c) (simp add: accepted_reaches)
    qed
  qed
qed

theorem init_unknown_channels_fallback_witness:
  "channel_conversion (prev_layer unknown_channels_args) = Inl TypeError \<and>
   snd (snd (QuantizedConv2d_init unknown_channels_args)) ! 2
     = Log_warning ''[warnings] unknow input channels, set to 1'' \<and>
   hd (requested_shapes (snd (snd (QuantizedConv2d_init unknown_channels_args))))
     = Dims [5, 5, 1, 32] \<and>
   fst (QuantizedConv2d_init unknown_channels_args) = None"
proof -
  have t: "channel_conversion (prev_layer unknown_channels_args) = Inl TypeError"
    by (simp add: unknown_channels_args_def example_args_def channel_conversion_def
        get_shape_last_def Dimension_int_def)
  have g: "\<not> use_gemm unknown_channels_args" and s: "length (strides unknown_channels_args) = 2"
    by (simp_all add: unknown_channels_args_def example_args_def)
  have acc: "accepted unknown_channels_args"
    by (simp add: accepted_def unknown_channels_args_def example_args_def)
  have tr: "snd (snd (QuantizedConv2d_init unknown_channels_args)) ! 2
     = Log_warning ''[warnings] unknow input channels, set to 1''"
    by (simp add: init_accepted [OF acc] t)
  have v: "filter_size unknown_channels_args = [5, 5]" "n_filter unknown_channels_args = 32"
    "padding unknown_channels_args = ''SAME''" "data_format unknown_channels_args = None"
    by (simp_all add: unknown_channels_args_def example_args_def)
  show ?thesis
    using init_unknown_channels_fallback [OF t g s] t tr by (simp add: v)
qed

text \<open>
  C6. In a construction that succeeds, the tensor added as bias is the variable as the
  parameter service returned it, and it is the operand of no quantizer call (these are two:
  on the input activations and on the weight variable). The parameters registered are the
  layer's variables, the floating-point weight and (if present) the bias, none of them the
  result of a quantizer; they are what the layer ends with after the previous layer's
  parameters. The filter of the convolution is the weight quantizer applied to the
  registered weight variable: the quantized tensor is derived from the stored variable
  and is not stored itself.
\<close>

theorem init_bias_and_params_unquantized:
  assumes "fst (QuantizedConv2d_init a) = None"
  shows "bias_operands (snd (snd (QuantizedConv2d_init a))) =
           (case b_init a of None \<Rightarrow> [] | Some bi \<Rightarrow> [bias_variable a bi]) \<and>
         quantizer_operands (snd (snd (QuantizedConv2d_init a))) =
           [prev_outputs (prev_layer a), weight_variable a] \<and>
         (\<forall>b \<in> set (bias_operands (snd (snd (QuantizedConv2d_init a)))).
            is_Variable b \<and> \<not> is_quantized b \<and>
            b \<notin> set (quantizer_operands (snd (snd (QuantizedConv2d_init a))))) \<and>
         registered_params (snd (snd (QuantizedConv2d_init a))) =
           weight_variable a # bias_operands (snd (snd (QuantizedConv2d_init a))) \<and>
         (\<forall>p \<in> set (registered_params (snd (snd (QuantizedConv2d_init a)))).
            is_Variable p \<and> \<not> is_quantized p) \<and>
         all_params (fst (snd (QuantizedConv2d_init a))) =
           prev_all_params (prev_layer a) @ registered_params (snd (snd (QuantizedConv2d_init a))) \<and>
         conv_filters (snd (snd (QuantizedConv2d_init a))) =
           [QuantizeWeightOverflow (hd (registered_params (snd (snd (QuantizedConv2d_init a)))))
              (bitW a)]"
proof -
  from assms have acc: "accepted a" by (simp add: init_accepted_iff)
  have v: "is_Variable (weight_variable a)" "\<not> is_quantized (weight_variable a)"
    "is_Variable (bias_variable a bi)" "\<not> is_quantized (bias_variable a bi)" for bi
    by (simp_all add: weight_variable_def bias_variable_def)
  show ?thesis
    by (cases "b_init a"; cases "channel_conversion (prev_layer a) = Inl TypeError")
      (simp_all add: init_accepted [OF acc] layer_weights_def v bias_variable_not_weight
        bias_variable_not_upstream)
qed

theorem init_bias_and_params_unquantized_witness:
  "(let Xq = QuantizeActiveOverflow (Upstream ''input'') 8;
        W = Variable ''qcnn1/W_conv2d'' (Dims [5, 5, 3, 32]) ''truncated_normal_initializer'' Xq [];
        b = Variable ''qcnn1/b_conv2d'' (Dim 32) ''constant_initializer'' Xq []
    in fst (QuantizedConv2d_init example_args) = None \<and>
       bias_operands (snd (snd (QuantizedConv2d_init example_args))) = [b] \<and>
       quantizer_operands (snd (snd (QuantizedConv2d_init example_args))) = [Upstream ''input'', W] \<and>
       registered_params (snd (snd (QuantizedConv2d_init example_args))) = [W, b] \<and>
       all_params (fst (snd (QuantizedConv2d_init example_args))) = [W, b] \<and>
       conv_filters (snd (snd (QuantizedConv2d_init example_args))) = [QuantizeWeightOverflow W 8])"
proof -
  have h: "fst (QuantizedConv2d_init example_args) = None"
    by (simp add: init_accepted_iff accepted_def example_args_def)
  have v: "b_init example_args = Some ''constant_initializer''" "bitW example_args = 8"
    "prev_outputs (prev_layer example_args) = Upstream ''input''"
    "prev_all_params (prev_layer example_args) = []"
    "weight_variable example_args =
       Variable ''qcnn1/W_conv2d'' (Dims [5, 5, 3, 32]) ''truncated_normal_initializer''
         (QuantizeActiveOverflow (Upstream ''input'') 8) []"
    "bias_variable example_args ''constant_initializer'' =
       Variable ''qcnn1/b_conv2d'' (Dim 32) ''constant_initializer''
         (QuantizeActiveOverflow (Upstream ''input'') 8) []"
    by (simp_all add: example_args_def weight_variable_def bias_variable_def quantized_inputs_def
        input_channels_def channel_conversion_def get_shape_last_def Dimension_int_def)
  show ?thesis
    using h init_bias_and_params_unquantized [OF h] by (simp add: v)
qed

text \<open>
  C7. The third component of the weight's shape is the last static dimension of the input,
  whatever the data format. With the documented data format "NCHW" and an input of static
  shape \<open>(None, 3, 8, 8)\<close>, whose channel count is 3, the constructor asks for a weight of
  shape \<open>(5, 5, 8, 32)\<close>: the third component is the input's width, not its number of
  channels. That variable is the one kept among the layer's weights and the one whose
  quantization is handed to the convolution primitive as the filter.
\<close>

theorem init_nchw_weight_shape:
  "data_format nchw_args = Some ''NCHW'' \<and>
   prev_outputs_shape (prev_layer nchw_args) = Some [None, Some 3, Some 8, Some 8] \<and>
   filter_size nchw_args = [5, 5] \<and> n_filter nchw_args = 32 \<and>
   format_channels (data_format nchw_args) (prev_outputs_shape (prev_layer nchw_args)) = Some 3 \<and>
   hd (requested_shapes (snd (snd (QuantizedConv2d_init nchw_args)))) = Dims [5, 5, 8, 32] \<and>
   hd (local_weights (fst (snd (QuantizedConv2d_init nchw_args)))) =
     Variable ''qcnn1/W_conv2d'' (Dims [5, 5, 8, 32]) ''truncated_normal_initializer''
       (QuantizeActiveOverflow (Upstream ''input'') 8) [] \<and>
   conv_filters (snd (snd (QuantizedConv2d_init nchw_args))) =
     [QuantizeWeightOverflow
        (Variable ''qcnn1/W_conv2d'' (Dims [5, 5, 8, 32]) ''truncated_normal_initializer''
           (QuantizeActiveOverflow (Upstream ''input'') 8) [])
        8]"
proof -
  have acc: "accepted nchw_args"
    by (simp add: accepted_def nchw_args_def example_args_def)
  have c: "channel_conversion (prev_layer nchw_args) = Inr 8"
    by (simp add: nchw_args_def example_args_def channel_conversion_def get_shape_last_def
        Dimension_int_def)
  have v: "data_format nchw_args = Some ''NCHW''"
    "prev_outputs_shape (prev_layer nchw_args) = Some [None, Some 3, Some 8, Some 8]"
    "filter_size nchw_args = [5, 5]" "n_filter nchw_args = 32" "bitW nchw_args = 8"
    "b_init nchw_args = Some ''constant_initializer''"
    by (simp_all add: nchw_args_def example_args_def)
  have w: "weight_variable nchw_args =
     Variable ''qcnn1/W_conv2d'' (Dims [5, 5, 8, 32]) ''truncated_normal_initializer''
       (QuantizeActiveOverflow (Upstream ''input'') 8) []"
    by (simp add: weight_variable_def input_channels_def c quantized_inputs_def)
      (simp add: nchw_args_def example_args_def)
  show ?thesis
    by (simp add: init_accepted [OF acc] c v w input_channels_def layer_weights_def
        format_channels_def)
qed

text \<open>
  C10. When the constructor rejects \<open>use_gemm\<close> or the length of the strides, \<open>self.inputs\<close>,
  which the base constructor had set to the previous layer's output, already holds the
  activation quantizer applied to it with \<open>bitA\<close>: that call, after the log line, is all the
  constructor did before raising.
\<close>

theorem init_rejection_after_quantization:
  assumes "use_gemm a \<or> length (strides a) \<noteq> 2"
  shows "fst (QuantizedConv2d_init a) \<noteq> None \<and>
         inputs (Layer_init (prev_layer a) (act a) (W_init_args a) (b_init_args a) (name a)) =
           prev_outputs (prev_layer a) \<and>
         inputs (fst (snd (QuantizedConv2d_init a))) =
           QuantizeActiveOverflow (prev_outputs (prev_layer a)) (bitA a) \<and>
         snd (snd (QuantizedConv2d_init a)) =
           [Log_info (name a) (n_filter a) (filter_size a) (strides a) (padding a)
              (case act a of None \<Rightarrow> ''No Activation'' | Some f \<Rightarrow> f),
            Call_quantize_active_overflow (prev_outputs (prev_layer a)) (bitA a)]"
proof (cases "use_gemm a")
  case True
  then show ?thesis by (simp add: init_use_gemm Layer_init_def quantized_inputs_def)
next
  case False
  with assms have "length (strides a) \<noteq> 2" by simp
  with False show ?thesis by (simp add: init_bad_strides Layer_init_def quantized_inputs_def)
qed

theorem init_rejection_after_quantization_witness:
  "use_gemm (example_args\<lparr>use_gemm := True\<rparr>) \<and>
   fst (QuantizedConv2d_init (example_args\<lparr>use_gemm := True\<rparr>)) \<noteq> None \<and>
   inputs (fst (snd (QuantizedConv2d_init (example_args\<lparr>use_gemm := True\<rparr>)))) =
     QuantizeActiveOverflow (Upstream ''input'') 8 \<and>
   length (strides (example_args\<lparr>strides := [1]\<rparr>)) \<noteq> 2 \<and>
   fst (QuantizedConv2d_init (example_args\<lparr>strides := [1]\<rparr>)) \<noteq> None \<and>
   inputs (fst (snd (QuantizedConv2d_init (example_args\<lparr>strides := [1]\<rparr>)))) =
     QuantizeActiveOverflow (Upstream ''input'') 8"
  using init_rejection_after_quantization [of "example_args\<lparr>use_gemm := True\<rparr>"]
    init_rejection_after_quantization [of "example_args\<lparr>strides := [1]\<rparr>"]
  by (simp add: example_args_def)

section \<open>The dynamic range of the zero tensor\<close>

lemma maxabs_Cons: "maxabs (v # vs) = max \<bar>v\<bar> (maxabs vs)"
  by (simp add: maxabs_def)

lemma maxabs_Nil: "maxabs [] = 0"
  by (simp add: maxabs_def)

lemma maxabs_ge: "v \<in> set vs \<Longrightarrow> \<bar>v\<bar> \<le> maxabs vs"
  by (induction vs) (auto simp: maxabs_Cons)

lemma maxabs_zero_iff: "maxabs vs = 0 \<longleftrightarrow> (\<forall>v\<in>set vs. v = 0)"
proof
  assume z: "maxabs vs = 0"
  show "\<forall>v\<in>set vs. v = 0"
  proof
    fix v assume "v \<in> set vs"
    then have "\<bar>v\<bar> \<le> 0" using maxabs_ge [of v vs] z by simp
    then show "v = 0" by simp
  qed
next
  assume "\<forall>v\<in>set vs. v = 0"
  then show "maxabs vs = 0" by (induction vs) (auto simp: maxabs_Cons maxabs_Nil)
qed

lemma quantize_weight_steps_zeros:
  assumes "\<forall>w\<in>set (tvals W). w = 0" and "tvals W \<noteq> []" and "b \<noteq> 1"
  shows "quantize_weight_steps W b = None"
proof -
  have z: "maxabs (tvals W) = 0" using assms(1) by (simp add: maxabs_zero_iff)
  have e: "quantize_weight_element b 0 w = None" for w
    using assms(3) by (simp add: quantize_weight_element_def checked_div_def)
  obtain v vs where "tvals W = v # vs" using assms(2) by (cases "tvals W") auto
  then have "those (map (quantize_weight_element b 0) (tvals W)) = None" by (simp add: e)
  then show ?thesis by (simp add: quantize_weight_steps_def elementwise_def z)
qed

section \<open>The claim about the weight quantizer\<close>

text \<open>
  C8. On a tensor whose elements are all zero, at any bit width, the weight quantizer
  returns a tensor (no element is the result of a division by zero) and this tensor is the
  input itself: the same shape, every element zero. The dynamic range is zero there, and
  the result is that of the guard; the steps alone divide by it
  (\<open>quantize_weight_steps_zeros\<close>).
\<close>

theorem quantize_weight_overflow_zeros:
  assumes "\<forall>w\<in>set (tvals W). w = 0"
  shows "quantize_weight_overflow W b = Some W"
proof -
  have "maxabs (tvals W) = 0" using assms by (simp add: maxabs_zero_iff)
  moreover have "map (\<lambda>w. 0) (tvals W) = tvals W" using assms by (simp add: map_idI)
  ultimately show ?thesis by (simp add: quantize_weight_overflow_def)
qed

theorem quantize_weight_overflow_zeros_witness:
  "quantize_weight_overflow zero_tensor 8 = Some \<lparr>tshape = [2, 2], tvals = [0, 0, 0, 0]\<rparr> \<and>
   quantize_weight_overflow zero_tensor 1 = Some \<lparr>tshape = [2, 2], tvals = [0, 0, 0, 0]\<rparr>"
  using quantize_weight_overflow_zeros [of zero_tensor 8]
    quantize_weight_overflow_zeros [of zero_tensor 1]
  by (simp add: zero_tensor_def)

end
